theory Spec2Isabelle
  imports Main
begin

section \<open>Python string operations used by the providers\<close>

text \<open>
  Language codes are ASCII strings, modelled as \<^typ>\<open>string\<close>. The text to translate
  and the service's answer are Python unicode strings whose characters are left abstract:
  they are lists over a type variable, so that \<open>length\<close> counts characters the way
  Python's slicing does.
\<close>

definition replace_underscore :: "string \<Rightarrow> string" where
  \<comment> \<open>\<^verbatim>\<open>s.replace('_', '-')\<close>\<close>
  "replace_underscore s = map (\<lambda>c. if c = CHR ''_'' then CHR ''-'' else c) s"

definition lower_char :: "char \<Rightarrow> char" where
  "lower_char c =
     (case map_of (zip ''ABCDEFGHIJKLMNOPQRSTUVWXYZ'' ''abcdefghijklmnopqrstuvwxyz'') c of
        Some d \<Rightarrow> d
      | None \<Rightarrow> c)"

definition lower :: "string \<Rightarrow> string" where
  \<comment> \<open>\<^verbatim>\<open>s.lower()\<close> on an ASCII string\<close>
  "lower s = map lower_char s"

definition split_first :: "char \<Rightarrow> string \<Rightarrow> string" where
  \<comment> \<open>\<^verbatim>\<open>s.split(sep)[0]\<close>: the part of \<open>s\<close> before the first \<open>sep\<close>, all of \<open>s\<close>
      when \<open>sep\<close> does not occur\<close>
  "split_first sep s = takeWhile (\<lambda>c. c \<noteq> sep) s"

section \<open>Exceptions\<close>

text \<open>
  A raised Python exception, an instance of \<^verbatim>\<open>Exception\<close>, is a value: its class name
  and its \<^verbatim>\<open>str()\<close>. A function that can raise returns \<open>pyexc + 'a\<close>, with \<open>Inl\<close> for
  the exception.
\<close>

datatype pyexc = PyExc (exc_class: string) (exc_str: string)

definition MachineTranslationError :: "string \<Rightarrow> pyexc" where
  "MachineTranslationError msg = PyExc ''MachineTranslationError'' msg"

section \<open>Python values\<close>

text \<open>
  The values a decoded JSON document is made of, and \<^verbatim>\<open>None\<close>. Numbers with a fraction
  are floats and are left out.
\<close>

datatype pyval =
  PNone
  | PBool bool
  | PInt int
  | PStr string
  | PList "pyval list"
  | PDict "(string \<times> pyval) list"

fun py_num :: "pyval \<Rightarrow> int option" where
  \<comment> \<open>the integer a value counts as in arithmetic: \<^verbatim>\<open>bool\<close> is a subclass of \<^verbatim>\<open>int\<close>\<close>
  "py_num (PInt n) = Some n"
| "py_num (PBool b) = Some (if b then 1 else 0)"
| "py_num other = None"

fun py_add :: "pyval \<Rightarrow> pyval \<Rightarrow> pyval option" where
  \<comment> \<open>\<^verbatim>\<open>a + b\<close>; \<open>None\<close> where Python raises \<^verbatim>\<open>TypeError\<close>\<close>
  "py_add (PStr s) (PStr t) = Some (PStr (s @ t))"
| "py_add (PList xs) (PList ys) = Some (PList (xs @ ys))"
| "py_add a b =
     (case (py_num a, py_num b) of
        (Some m, Some n) \<Rightarrow> Some (PInt (m + n))
      | other \<Rightarrow> None)"

section \<open>MicrosoftTranslation\<close>

subsection \<open>The cached access token\<close>

text \<open>
  Instants are counted in microseconds, the resolution of \<^verbatim>\<open>datetime\<close>;
  \<^verbatim>\<open>TOKEN_EXPIRY = timedelta(minutes=9)\<close>.
\<close>

type_synonym instant = int

definition TOKEN_EXPIRY :: int where
  "TOKEN_EXPIRY = 9 * 60 * 1000000"

definition OAUTH_URL :: string where
  "OAUTH_URL = ''https://datamarket.accesscontrol.windows.net/v2/OAuth2-13''"

text \<open>
  The two attributes set to \<^verbatim>\<open>None\<close> by \<^verbatim>\<open>__init__\<close>. The token is whatever value the
  response holds under \<^verbatim>\<open>access_token\<close>; the expiry is \<^verbatim>\<open>None\<close> or a datetime.
\<close>

record token_cache =
  access_token_attr :: pyval
  token_expiry_attr :: "instant option"

definition init_cache :: token_cache where
  "init_cache = \<lparr>access_token_attr = PNone, token_expiry_attr = None\<rparr>"

text \<open>
  What \<^verbatim>\<open>access_token\<close> can raise: an exception passed on from the request,
  \<^verbatim>\<open>MachineTranslationError\<close> with the sum of the two error fields as its argument, the
  \<^verbatim>\<open>TypeError\<close> of that sum, with its operands, the \<^verbatim>\<open>KeyError\<close> of a missing key, and
  the \<^verbatim>\<open>TypeError\<close> of comparing \<^verbatim>\<open>None\<close> with a datetime.
\<close>

datatype token_failure =
  Raised pyexc
  | Translation_error pyval
  | Add_type_error pyval pyval
  | Key_error string
  | Compare_type_error

fun failure_class :: "token_failure \<Rightarrow> string" where
  "failure_class (Raised exc) = exc_class exc"
| "failure_class (Translation_error v) = ''MachineTranslationError''"
| "failure_class (Add_type_error a b) = ''TypeError''"
| "failure_class (Key_error k) = ''KeyError''"
| "failure_class Compare_type_error = ''TypeError''"

definition is_token_expired :: "token_cache \<Rightarrow> instant \<Rightarrow> token_failure + bool" where
  \<comment> \<open>\<^verbatim>\<open>self._token_expiry <= timezone.now()\<close>; comparing \<^verbatim>\<open>None\<close> with a datetime raises\<close>
  "is_token_expired self now =
     (case token_expiry_attr self of
        None \<Rightarrow> Inl Compare_type_error
      | Some expiry \<Rightarrow> Inr (expiry \<le> now))"

text \<open>
  The decoded authentication response is a dictionary from field names to values.
  \<^verbatim>\<open>data.get(key, dflt)\<close>:
\<close>

definition dict_get :: "(string \<rightharpoonup> pyval) \<Rightarrow> string \<Rightarrow> pyval \<Rightarrow> pyval" where
  "dict_get data key dflt = (case data key of Some v \<Rightarrow> v | None \<Rightarrow> dflt)"

text \<open>
  What the statements after the request do with its outcome \<open>reply\<close>, a raised exception
  or the decoded response: the exception to raise, or the token to install.
\<close>

definition read_reply :: "pyexc + (string \<rightharpoonup> pyval) \<Rightarrow> token_failure + pyval" where
  "read_reply reply =
     (case reply of
        Inl exc \<Rightarrow> Inl (Raised exc)
      | Inr data \<Rightarrow>
          if data ''error'' \<noteq> None then
            (let a = dict_get data ''error'' (PStr ''Unknown Error'');
                 b = dict_get data ''error_description'' (PStr ''No Error Description'')
             in case py_add a b of
                  None \<Rightarrow> Inl (Add_type_error a b)
                | Some v \<Rightarrow> Inl (Translation_error v))
          else
            (case data ''access_token'' of
               None \<Rightarrow> Inl (Key_error ''access_token'')
             | Some token \<Rightarrow> Inr token))"

text \<open>
  The branch of \<^verbatim>\<open>access_token\<close> that asks for a new token. \<open>reply\<close> is what the
  authentication request \<^verbatim>\<open>json_req(..., skip_auth=True, http_post=True, ...)\<close> gives.
  \<open>now_install\<close> is the clock's reading at the assignment of \<^verbatim>\<open>_token_expiry\<close>. The
  result is the returned token or the raised exception, the attributes afterwards, and the
  requests sent.
\<close>

definition refresh_token ::
  "token_cache \<Rightarrow> instant \<Rightarrow> pyexc + (string \<rightharpoonup> pyval) \<Rightarrow>
     (token_failure + pyval) \<times> token_cache \<times> string list" where
  "refresh_token self now_install reply =
     (case read_reply reply of
        Inl failure \<Rightarrow> (Inl failure, self, [OAUTH_URL])
      | Inr token \<Rightarrow>
          (Inr token,
           self\<lparr>access_token_attr := token,
                token_expiry_attr := Some (now_install + TOKEN_EXPIRY)\<rparr>,
           [OAUTH_URL]))"

text \<open>
  The property \<^verbatim>\<open>access_token\<close>. \<open>now\<close> is the clock's reading in
  \<^verbatim>\<open>is_token_expired\<close>, which \<^verbatim>\<open>or\<close> evaluates only when a token is held.
\<close>

definition access_token ::
  "token_cache \<Rightarrow> instant \<Rightarrow> instant \<Rightarrow> pyexc + (string \<rightharpoonup> pyval) \<Rightarrow>
     (token_failure + pyval) \<times> token_cache \<times> string list" where
  "access_token self now now_install reply =
     (if access_token_attr self = PNone then refresh_token self now_install reply
      else
        (case is_token_expired self now of
           Inl failure \<Rightarrow> (Inl failure, self, [])
         | Inr True \<Rightarrow> refresh_token self now_install reply
         | Inr False \<Rightarrow> (Inr (access_token_attr self), self, [])))"

subsection \<open>Two callers of access\_token\<close>

text \<open>
  \<^verbatim>\<open>access_token\<close> takes no lock, so the statements of two callers on one instance can
  interleave. A caller is at one of these points: before the test of line 75, before the
  request, before the assignment of \<^verbatim>\<open>_access_token\<close> (holding the token to install),
  before the assignment of \<^verbatim>\<open>_token_expiry\<close>, before the \<^verbatim>\<open>return\<close>, or finished
  with a returned value or a raised exception.
\<close>

datatype caller = First | Second

datatype pc =
  At_check
  | At_request
  | At_write_token pyval
  | At_write_expiry
  | At_return
  | Finished "token_failure + pyval"

text \<open>What the callers share: the attributes of the instance, and the requests sent so far.\<close>

record shared =
  cache :: token_cache
  sent :: "string list"

text \<open>
  One step of a schedule: the caller that moves, the clock's reading, and the outcome of
  the request, read by the steps that use them.
\<close>

record tick =
  who :: caller
  clock :: instant
  answer :: "pyexc + (string \<rightharpoonup> pyval)"

text \<open>
  One step of a caller. The test of line 75 reads both attributes in one step and the
  request is sent and answered in one step: the schedules of this model are schedules of
  the program.
\<close>

fun caller_step :: "instant \<Rightarrow> pyexc + (string \<rightharpoonup> pyval) \<Rightarrow> shared \<Rightarrow> pc \<Rightarrow> shared \<times> pc" where
  "caller_step now reply w At_check =
     (if access_token_attr (cache w) = PNone then (w, At_request)
      else
        (case is_token_expired (cache w) now of
           Inl failure \<Rightarrow> (w, Finished (Inl failure))
         | Inr True \<Rightarrow> (w, At_request)
         | Inr False \<Rightarrow> (w, At_return)))"
| "caller_step now reply w At_request =
     (case read_reply reply of
        Inl failure \<Rightarrow> (w\<lparr>sent := sent w @ [OAUTH_URL]\<rparr>, Finished (Inl failure))
      | Inr token \<Rightarrow> (w\<lparr>sent := sent w @ [OAUTH_URL]\<rparr>, At_write_token token))"
| "caller_step now reply w (At_write_token token) =
     (w\<lparr>cache := (cache w)\<lparr>access_token_attr := token\<rparr>\<rparr>, At_write_expiry)"
| "caller_step now reply w At_write_expiry =
     (w\<lparr>cache := (cache w)\<lparr>token_expiry_attr := Some (now + TOKEN_EXPIRY)\<rparr>\<rparr>, At_return)"
| "caller_step now reply w At_return = (w, Finished (Inr (access_token_attr (cache w))))"
| "caller_step now reply w (Finished result) = (w, Finished result)"

definition system_step :: "shared \<times> pc \<times> pc \<Rightarrow> tick \<Rightarrow> shared \<times> pc \<times> pc" where
  "system_step state t =
     (case state of
        (w, first, second) \<Rightarrow>
          (case who t of
             First \<Rightarrow>
               (case caller_step (clock t) (answer t) w first of (w', pc') \<Rightarrow> (w', pc', second))
           | Second \<Rightarrow>
               (case caller_step (clock t) (answer t) w second of (w', pc') \<Rightarrow> (w', first, pc'))))"

definition run :: "tick list \<Rightarrow> shared \<times> pc \<times> pc \<Rightarrow> shared \<times> pc \<times> pc" where
  "run ticks state = foldl system_step state ticks"

text \<open>
  The steps of a caller that runs undisturbed from the test to the \<^verbatim>\<open>return\<close>: five at
  most, a finished caller staying as it is.
\<close>

definition alone :: "caller \<Rightarrow> instant \<Rightarrow> instant \<Rightarrow> pyexc + (string \<rightharpoonup> pyval) \<Rightarrow> tick list" where
  "alone c now now_install reply =
     [\<lparr>who = c, clock = now, answer = reply\<rparr>,
      \<lparr>who = c, clock = now, answer = reply\<rparr>,
      \<lparr>who = c, clock = now, answer = reply\<rparr>,
      \<lparr>who = c, clock = now_install, answer = reply\<rparr>,
      \<lparr>who = c, clock = now_install, answer = reply\<rparr>]"

text \<open>
  Two schedules from the state in which no token is held. In the first both callers pass
  the test before either has sent its request. In the second the other caller tests after
  the first has assigned the token and before it has assigned the expiry.
\<close>

definition racing_schedule :: "tick list" where
  "racing_schedule =
     [\<lparr>who = First, clock = 0, answer = Inr [''access_token'' \<mapsto> PStr ''t1'']\<rparr>,
      \<lparr>who = Second, clock = 0, answer = Inr [''access_token'' \<mapsto> PStr ''t2'']\<rparr>,
      \<lparr>who = First, clock = 0, answer = Inr [''access_token'' \<mapsto> PStr ''t1'']\<rparr>,
      \<lparr>who = Second, clock = 0, answer = Inr [''access_token'' \<mapsto> PStr ''t2'']\<rparr>,
      \<lparr>who = First, clock = 10, answer = Inr [''access_token'' \<mapsto> PStr ''t1'']\<rparr>,
      \<lparr>who = First, clock = 10, answer = Inr [''access_token'' \<mapsto> PStr ''t1'']\<rparr>,
      \<lparr>who = First, clock = 10, answer = Inr [''access_token'' \<mapsto> PStr ''t1'']\<rparr>,
      \<lparr>who = Second, clock = 20, answer = Inr [''access_token'' \<mapsto> PStr ''t2'']\<rparr>,
      \<lparr>who = Second, clock = 20, answer = Inr [''access_token'' \<mapsto> PStr ''t2'']\<rparr>,
      \<lparr>who = Second, clock = 20, answer = Inr [''access_token'' \<mapsto> PStr ''t2'']\<rparr>]"

definition torn_schedule :: "tick list" where
  "torn_schedule =
     [\<lparr>who = First, clock = 0, answer = Inr [''access_token'' \<mapsto> PStr ''t1'']\<rparr>,
      \<lparr>who = First, clock = 0, answer = Inr [''access_token'' \<mapsto> PStr ''t1'']\<rparr>,
      \<lparr>who = First, clock = 10, answer = Inr [''access_token'' \<mapsto> PStr ''t1'']\<rparr>,
      \<lparr>who = Second, clock = 10, answer = Inr [''access_token'' \<mapsto> PStr ''t2'']\<rparr>]"

subsection \<open>download\_translations\<close>

definition TRANSLATE_URL :: string where
  "TRANSLATE_URL = ''https://api.microsofttranslator.com/V2/Ajax.svc/Translate''"

definition mt_name :: string where
  "mt_name = ''Microsoft Translator''"

text \<open>The keyword arguments of the request: the dictionary \<^verbatim>\<open>args\<close>.\<close>

record 'c translate_args =
  arg_text :: "'c list"
  arg_from :: string
  arg_to :: string
  arg_contentType :: string
  arg_category :: string

definition download_args :: "string \<Rightarrow> string \<Rightarrow> 'c list \<Rightarrow> 'c translate_args" where
  "download_args source language text =
     \<lparr>arg_text = take 5000 text,
      arg_from = source,
      arg_to = language,
      arg_contentType = ''text/plain'',
      arg_category = ''general''\<rparr>"

text \<open>
  \<^verbatim>\<open>json_req\<close> is the inherited request method: here a parameter giving, for a URL and
  the keyword arguments, the raised exception or the decoded response. The result is the
  returned list of candidate tuples or the raised exception, with the requests made.
\<close>

definition mt_download_translations ::
  "(string \<Rightarrow> 'c translate_args \<Rightarrow> pyexc + 'c list) \<Rightarrow> string \<Rightarrow> string \<Rightarrow> 'c list \<Rightarrow>
     (pyexc + ('c list \<times> int \<times> string \<times> 'c list) list) \<times> (string \<times> 'c translate_args) list" where
  "mt_download_translations json_req source language text =
     (let args = download_args source language text in
      case json_req TRANSLATE_URL args of
        Inl exc \<Rightarrow> (Inl exc, [(TRANSLATE_URL, args)])
      | Inr response \<Rightarrow> (Inr [(response, 100, mt_name, text)], [(TRANSLATE_URL, args)]))"

subsection \<open>convert\_language\<close>

definition mt_convert_language :: "string \<Rightarrow> string" where
  "mt_convert_language language0 =
     (let language = lower (replace_underscore language0) in
      if language = ''zh-tw'' then ''zh-CHT''
      else if language = ''zh-cn'' then ''zh-CHS''
      else if language = ''nb'' then ''no''
      else if language = ''pt-br'' then ''pt''
      else language)"

section \<open>MicrosoftCognitiveTranslation\<close>

definition LANGUAGE_CONVERTER :: "(string \<times> string) list" where
  "LANGUAGE_CONVERTER =
     [(''zh-hant'', ''zh-CHT''),
      (''zh-hans'', ''zh-CHS''),
      (''zh-tw'', ''zh-CHT''),
      (''zh-cn'', ''zh-CHS''),
      (''tlh-qaak'', ''tlh-Qaak''),
      (''nb'', ''no''),
      (''bs-latn'', ''bs-Latn''),
      (''sr-latn'', ''sr-Latn''),
      (''sr-cyrl'', ''sr-Cyrl'')]"

definition cog_convert_language :: "string \<Rightarrow> string" where
  "cog_convert_language language0 =
     (let language = lower (replace_underscore language0) in
      case map_of LANGUAGE_CONVERTER language of
        Some code \<Rightarrow> code
      | None \<Rightarrow> split_first (CHR ''-'') language)"

section \<open>MicrosoftTerminologyService\<close>

text \<open>
  The service object as \<open>translate\<close> uses it. \<open>convert_language\<close> and \<open>is_supported\<close> are
  inherited methods, \<open>download_translations\<close> asks the SOAP service: each is a field
  giving what the call returns or, for the download, the exception it raises.
\<close>

record 'c service =
  convert_language :: "string \<Rightarrow> string"
  is_supported :: "string \<Rightarrow> string \<Rightarrow> bool"
  download_translations ::
    "string \<Rightarrow> string \<Rightarrow> 'c list \<Rightarrow> pyexc + ('c list \<times> int \<times> string \<times> 'c list) list"

text \<open>
  Modelled from the spec: \<open>is_supported\<close> of the base class is not part of the sources; the
  spec describes it as the test of the pair against the provider's supported-language set.
\<close>

definition supported_in :: "string set \<Rightarrow> string \<Rightarrow> string \<Rightarrow> bool" where
  "supported_in languages source language = (language \<in> languages \<and> source \<in> languages)"

text \<open>The calls \<open>translate\<close> makes on its collaborators, in the order it makes them.\<close>

datatype 'c call =
  Convert_language string
  | Is_supported string string
  | Download_translations string string "'c list"
  | Report_error pyexc string

fun is_download :: "'c call \<Rightarrow> bool" where
  "is_download (Download_translations source language text) = True"
| "is_download other = False"

fun is_report :: "'c call \<Rightarrow> bool" where
  "is_report (Report_error exc msg) = True"
| "is_report other = False"

text \<open>One entry of the returned list: the dictionary built from a candidate tuple.\<close>

record 'c translation =
  tr_text :: "'c list"
  tr_quality :: int
  tr_service :: string
  tr_source :: "'c list"

text \<open>
  The loop over \<^verbatim>\<open>DEFAULT_LANGS\<close>, written twice in the source (for \<open>language\<close>, then
  for \<open>source\<close>): the first entry whose part before the first underscore equals the code,
  if there is one, and the entries the loop has compared up to its \<^verbatim>\<open>break\<close>.
\<close>

fun search_langs :: "string \<Rightarrow> string list \<Rightarrow> string option \<times> string list" where
  "search_langs code [] = (None, [])"
| "search_langs code (lang # langs) =
     (if split_first (CHR ''_'') lang = code then (Some lang, [lang])
      else (case search_langs code langs of (found, compared) \<Rightarrow> (found, lang # compared)))"

text \<open>
  The widening of one code: under the guard the table is searched and a matching entry
  replaces the code, hyphenated and lower-cased. The result is the code afterwards and the
  entries compared, none when the guard keeps the loop from running.
  \<^verbatim>\<open>DEFAULT_LANGS\<close> is imported from a module outside the sources and is a parameter.
\<close>

definition widen_search :: "string list \<Rightarrow> string \<Rightarrow> string \<times> string list" where
  "widen_search DEFAULT_LANGS code =
     (if CHR ''-'' \<notin> set code \<or> CHR ''_'' \<notin> set code then
        (case search_langs code DEFAULT_LANGS of
           (Some lang, compared) \<Rightarrow> (lower (replace_underscore lang), compared)
         | (None, compared) \<Rightarrow> (code, compared))
      else (code, []))"

definition widen :: "string list \<Rightarrow> string \<Rightarrow> string" where
  "widen DEFAULT_LANGS code = fst (widen_search DEFAULT_LANGS code)"

text \<open>
  The form of the table's entries, \<open>language_REGION\<close>: no hyphen before the first
  underscore.
\<close>

definition language_region_tags :: "string list \<Rightarrow> bool" where
  "language_region_tags DEFAULT_LANGS =
     list_all (\<lambda>lang. CHR ''-'' \<notin> set (split_first (CHR ''_'') lang)) DEFAULT_LANGS"

text \<open>
  The conversion and the support check of \<open>translate\<close>: the pair to download for, or
  \<open>None\<close> where \<open>translate\<close> returns the empty list, with the calls made.
\<close>

definition negotiate ::
  "'c service \<Rightarrow> string list \<Rightarrow> string \<Rightarrow> string \<Rightarrow> (string \<times> string) option \<times> 'c call list" where
  "negotiate self DEFAULT_LANGS language0 source_code =
     (let language = convert_language self language0;
          source = convert_language self source_code;
          calls = [Convert_language language0, Convert_language source_code,
                   Is_supported source language]
      in if \<not> is_supported self source language then
           (let language' = widen DEFAULT_LANGS language;
                source' = widen DEFAULT_LANGS source
            in if source' = language' then (None, calls)
               else if \<not> is_supported self source' language' then
                 (None, calls @ [Is_supported source' language'])
               else (Some (source', language'), calls @ [Is_supported source' language']))
         else (Some (source, language), calls))"

text \<open>The \<^verbatim>\<open>try\<close> block of \<open>translate\<close>.\<close>

definition fetch ::
  "'c service \<Rightarrow> string \<Rightarrow> string \<Rightarrow> 'c list \<Rightarrow> (pyexc + 'c translation list) \<times> 'c call list" where
  "fetch self source language text =
     (case download_translations self source language text of
        Inr translations \<Rightarrow>
          (Inr (map (\<lambda>(t, q, s, orig).
                      \<lparr>tr_text = t, tr_quality = q, tr_service = s, tr_source = orig\<rparr>)
                  translations),
           [Download_translations source language text])
      | Inl exc \<Rightarrow>
          (Inl (MachineTranslationError (exc_class exc @ '': '' @ exc_str exc)),
           [Download_translations source language text,
            Report_error exc ''Failed to fetch translations from %s'']))"

text \<open>
  \<open>translate\<close>; \<open>source_code\<close> is
  \<^verbatim>\<open>unit.translation.subproject.project.source_language.code\<close>. The result is the
  returned list or the raised exception, with the calls made.
\<close>

definition translate ::
  "'c service \<Rightarrow> string list \<Rightarrow> string \<Rightarrow> 'c list \<Rightarrow> string \<Rightarrow>
     (pyexc + 'c translation list) \<times> 'c call list" where
  "translate self DEFAULT_LANGS language text source_code =
     (if text = [] then (Inr [], [])
      else
        (case negotiate self DEFAULT_LANGS language source_code of
           (None, calls) \<Rightarrow> (Inr [], calls)
         | (Some (source', language'), calls) \<Rightarrow>
             (let (result, calls') = fetch self source' language' text
              in (result, calls @ calls'))))"

subsection \<open>Two services for evaluation\<close>

text \<open>
  A service whose conversion keeps the code, whose supported languages are \<open>en\<close> and
  \<open>fr\<close>, and whose download always answers with one candidate.
\<close>

definition example_service :: "char service" where
  "example_service =
     \<lparr>convert_language = (\<lambda>code. code),
      is_supported = supported_in {''en'', ''fr''},
      download_translations =
        (\<lambda>source language text. Inr [(''bonjour'', 100, ''Microsoft Terminology'', text)])\<rparr>"

text \<open>
  A service supporting \<open>en-us\<close> and \<open>fr-fr\<close> whose download always raises.
\<close>

definition failing_service :: "char service" where
  "failing_service =
     \<lparr>convert_language = (\<lambda>code. code),
      is_supported = supported_in {''en-us'', ''fr-fr''},
      download_translations = (\<lambda>source language text. Inl (PyExc ''URLError'' ''timed out''))\<rparr>"

section \<open>Auxiliary facts\<close>

lemma access_token_when_due:
  assumes "access_token_attr self = PNone \<or>
           (\<exists>expiry. token_expiry_attr self = Some expiry \<and> expiry \<le> now)"
    and "now \<le> n"
  shows "access_token self n u r = refresh_token self u r"
proof (cases "access_token_attr self = PNone")
  case True
  then show ?thesis by (simp add: access_token_def)
next
  case False
  with assms(1) obtain expiry where "token_expiry_attr self = Some expiry" "expiry \<le> now"
    by auto
  with False assms(2) show ?thesis
    by (simp add: access_token_def is_token_expired_def)
qed

lemma refresh_token_sends: "snd (snd (refresh_token self u r)) = [OAUTH_URL]"
  by (simp add: refresh_token_def split: sum.split)

lemma read_reply_error_field:
  "data ''error'' \<noteq> None \<Longrightarrow> isl (read_reply (Inr data))"
  by (simp add: read_reply_def Let_def split: option.split)

text \<open>
  The part of C4 that holds for every response with an \<open>error\<close> field: an exception is
  raised, the attributes are unchanged, and the next call, at any later instant, sends the
  authentication request again.
\<close>

lemma access_token_error_keeps_cache:
  assumes due: "access_token_attr self = PNone \<or>
                (\<exists>expiry. token_expiry_attr self = Some expiry \<and> expiry \<le> now)"
    and err: "data ''error'' \<noteq> None"
    and later: "now \<le> now'"
  shows "isl (fst (access_token self now t (Inr data))) \<and>
         fst (snd (access_token self now t (Inr data))) = self \<and>
         snd (snd (access_token self now t (Inr data))) = [OAUTH_URL] \<and>
         snd (snd (access_token (fst (snd (access_token self now t (Inr data)))) now' t' reply'))
           = [OAUTH_URL]"
proof -
  obtain failure where "read_reply (Inr data) = Inl failure"
    using err read_reply_error_field [of data] by (cases "read_reply (Inr data)") auto
  then have first: "access_token self now t (Inr data) = (Inl failure, self, [OAUTH_URL])"
    using access_token_when_due [OF due, of now] by (simp add: refresh_token_def)
  show ?thesis
    using later by (simp add: first access_token_when_due [OF due] refresh_token_sends)
qed

text \<open>A caller alone does what \<open>access_token\<close> does.\<close>

lemma run_append: "run (xs @ ys) state = run ys (run xs state)"
  by (simp add: run_def)

lemma run_first_alone:
  "run (alone First now now_install reply) (\<lparr>cache = self, sent = log\<rparr>, At_check, other)
     = (\<lparr>cache = fst (snd (access_token self now now_install reply)),
         sent = log @ snd (snd (access_token self now now_install reply))\<rparr>,
        Finished (fst (access_token self now now_install reply)), other)"
  by (simp add: run_def alone_def system_step_def access_token_def refresh_token_def
      split: sum.split bool.split)

lemma run_second_alone:
  "run (alone Second now now_install reply) (\<lparr>cache = self, sent = log\<rparr>, other, At_check)
     = (\<lparr>cache = fst (snd (access_token self now now_install reply)),
         sent = log @ snd (snd (access_token self now now_install reply))\<rparr>,
        other, Finished (fst (access_token self now now_install reply)))"
  by (simp add: run_def alone_def system_step_def access_token_def refresh_token_def
      split: sum.split bool.split)

lemma lower_char_hyphen: "lower_char (CHR ''-'') = CHR ''-''"
  by (simp add: lower_char_def)

lemma split_first_no_sep: "sep \<notin> set (split_first sep s)"
  by (auto simp: split_first_def dest: set_takeWhileD)

lemma split_first_subset: "set (split_first sep s) \<subseteq> set s"
  by (auto simp: split_first_def dest: set_takeWhileD)

lemma hyphen_kept:
  assumes "CHR ''-'' \<in> set lang"
  shows "CHR ''-'' \<in> set (lower (replace_underscore lang))"
proof -
  let ?f = "\<lambda>c. lower_char (if c = CHR ''_'' then CHR ''-'' else c)"
  from assms have "?f (CHR ''-'') \<in> ?f ` set lang"
    by (rule imageI)
  moreover have "?f (CHR ''-'') = CHR ''-''"
    by (simp add: lower_char_hyphen)
  moreover have "set (lower (replace_underscore lang)) = ?f ` set lang"
    by (simp add: lower_def replace_underscore_def image_image)
  ultimately show ?thesis by simp
qed

lemma fst_search_langs:
  "fst (search_langs code langs) = find (\<lambda>lang. split_first (CHR ''_'') lang = code) langs"
  by (induction langs) (auto split: prod.split)

lemma widen_find:
  "widen langs code =
     (if CHR ''-'' \<notin> set code \<or> CHR ''_'' \<notin> set code then
        (case find (\<lambda>lang. split_first (CHR ''_'') lang = code) langs of
           Some lang \<Rightarrow> lower (replace_underscore lang)
         | None \<Rightarrow> code)
      else code)"
proof (cases "search_langs code langs")
  case (Pair found compared)
  then have "find (\<lambda>lang. split_first (CHR ''_'') lang = code) langs = found"
    using fst_search_langs [of code langs] by simp
  with Pair show ?thesis
    by (simp add: widen_def widen_search_def split: option.split)
qed

lemma widen_keeps_hyphen:
  assumes "CHR ''-'' \<in> set code"
  shows "CHR ''-'' \<in> set (widen langs code)"
proof (cases "find (\<lambda>lang. split_first (CHR ''_'') lang = code) langs")
  case None
  then show ?thesis using assms by (simp add: widen_find)
next
  case (Some lang)
  then have "split_first (CHR ''_'') lang = code"
    by (auto simp: find_Some_iff)
  with assms have "CHR ''-'' \<in> set lang"
    using split_first_subset [of "CHR ''_''" lang] by auto
  then show ?thesis using Some assms by (simp add: widen_find hyphen_kept)
qed

lemma widen_separated:
  assumes "CHR ''_'' \<in> set code \<or> (CHR ''-'' \<in> set code \<and> language_region_tags langs)"
  shows "widen langs code = code"
proof -
  have "find (\<lambda>lang. split_first (CHR ''_'') lang = code) langs = None"
    using assms split_first_no_sep [of "CHR ''_''"]
    by (auto simp: find_None_iff language_region_tags_def list_all_iff)
  then show ?thesis by (simp add: widen_find)
qed

lemma negotiate_calls_no_report: "filter is_report (snd (negotiate self langs language source_code)) = []"
  by (simp add: negotiate_def Let_def)

lemma negotiate_calls_no_download: "filter is_download (snd (negotiate self langs language source_code)) = []"
  by (simp add: negotiate_def Let_def)

section \<open>Properties\<close>

text \<open>
  C8. Both REST providers map \<open>zh_TW\<close> to the traditional-Chinese code \<open>zh-CHT\<close> and
  \<open>pt_BR\<close> to \<open>pt\<close>: MicrosoftTranslation by its explicit rules,
  MicrosoftCognitiveTranslation by its table for \<open>zh-tw\<close> and, \<open>pt-br\<close> being no key of
  the table, by keeping the part before the first hyphen. The conversions are functions of
  the code alone.
\<close>

theorem convert_language_zh_tw_pt_br:
  "mt_convert_language ''zh_TW'' = ''zh-CHT'' \<and>
   mt_convert_language ''pt_BR'' = ''pt'' \<and>
   cog_convert_language ''zh_TW'' = ''zh-CHT'' \<and>
   cog_convert_language ''pt_BR'' = ''pt'' \<and>
   map_of LANGUAGE_CONVERTER ''pt-br'' = None"
  by (simp add: mt_convert_language_def cog_convert_language_def LANGUAGE_CONVERTER_def
      lower_def lower_char_def replace_underscore_def split_first_def)

text \<open>
  C4 fails on a response whose \<open>error\<close> field is not a string. For \<open>{"error": null}\<close> the
  sum of lines 88-89 adds \<^verbatim>\<open>None\<close> to the default description and raises \<^verbatim>\<open>TypeError\<close>:
  no MachineTranslationError is raised. Nothing is installed and the request was sent, as
  the claim says. For a string \<open>error\<close> field the exception is MachineTranslationError.
\<close>

theorem null_error_field_raises_TypeError:
  "access_token init_cache 0 0 (Inr [''error'' \<mapsto> PNone])
     = (Inl (Add_type_error PNone (PStr ''No Error Description'')), init_cache, [OAUTH_URL]) \<and>
   failure_class (Add_type_error PNone (PStr ''No Error Description'')) = ''TypeError'' \<and>
   access_token init_cache 0 0 (Inr [''error'' \<mapsto> PStr ''invalid_client''])
     = (Inl (Translation_error (PStr ''invalid_clientNo Error Description'')), init_cache,
        [OAUTH_URL])"
  by (simp add: access_token_def refresh_token_def read_reply_def dict_get_def init_cache_def)

text \<open>
  C5. A token installed when the clock reads \<open>T\<close> gets the expiry \<open>T + TOKEN_EXPIRY\<close>,
  nine minutes later, and \<open>is_token_expired\<close> then answers, at every instant \<open>c\<close>, whether
  \<open>T + TOKEN_EXPIRY \<le> c\<close>: expired from that instant on, not expired before it.
\<close>

theorem installed_token_expiry:
  assumes due: "access_token_attr self = PNone \<or>
                (\<exists>expiry. token_expiry_attr self = Some expiry \<and> expiry \<le> now)"
    and ok: "data ''error'' = None"
    and tok: "data ''access_token'' = Some token"
  shows "token_expiry_attr (fst (snd (access_token self now T (Inr data)))) = Some (T + TOKEN_EXPIRY) \<and>
         access_token_attr (fst (snd (access_token self now T (Inr data)))) = token \<and>
         TOKEN_EXPIRY = 9 * 60 * 1000000 \<and>
         is_token_expired (fst (snd (access_token self now T (Inr data)))) c
           = Inr (T + TOKEN_EXPIRY \<le> c)"
proof -
  have "access_token self now T (Inr data) = refresh_token self T (Inr data)"
    using due by (rule access_token_when_due) simp
  then show ?thesis
    using ok tok
    by (simp add: refresh_token_def read_reply_def is_token_expired_def TOKEN_EXPIRY_def)
qed

theorem installed_token_expiry_witness:
  "is_token_expired (fst (snd (access_token init_cache 1000 1000 (Inr [''access_token'' \<mapsto> PStr ''tok''])))) 540000999
     = Inr False \<and>
   is_token_expired (fst (snd (access_token init_cache 1000 1000 (Inr [''access_token'' \<mapsto> PStr ''tok''])))) 540001000
     = Inr True"
proof -
  let ?data = "[''access_token'' \<mapsto> PStr ''tok'']"
  have due: "access_token_attr init_cache = PNone \<or>
             (\<exists>expiry. token_expiry_attr init_cache = Some expiry \<and> expiry \<le> 1000)"
    by (simp add: init_cache_def)
  have ok: "?data ''error'' = None" by simp
  have tok: "?data ''access_token'' = Some (PStr ''tok'')" by simp
  show ?thesis
    using installed_token_expiry
      [where self = init_cache and now = 1000 and T = 1000 and data = ?data
         and token = "PStr ''tok''" and c = 540000999, OF due ok tok]
      installed_token_expiry
      [where self = init_cache and now = 1000 and T = 1000 and data = ?data
         and token = "PStr ''tok''" and c = 540001000, OF due ok tok]
    by (simp add: TOKEN_EXPIRY_def)
qed

text \<open>
  C6. For a text of more than 5000 characters, \<open>download_translations\<close> sends one request,
  whose \<open>text\<close> argument is the first 5000 characters of the input; the function raises
  exactly when the request itself does, so the cut adds no error.
\<close>

theorem long_text_is_cut_to_5000:
  assumes "5000 < length text"
  shows "snd (mt_download_translations json_req source language text)
           = [(TRANSLATE_URL, download_args source language text)] \<and>
         arg_text (download_args source language text) = take 5000 text \<and>
         length (arg_text (download_args source language text)) = 5000 \<and>
         isl (fst (mt_download_translations json_req source language text))
           = isl (json_req TRANSLATE_URL (download_args source language text))"
  using assms
  by (simp add: mt_download_translations_def download_args_def Let_def split: sum.split)

theorem long_text_is_cut_to_5000_witness:
  "5000 < length (replicate 5001 CHR ''a'') \<and>
   map (\<lambda>(url, args). length (arg_text args))
     (snd (mt_download_translations (\<lambda>url args. Inr ''b'') ''en'' ''fr'' (replicate 5001 CHR ''a'')))
     = [5000]"
proof -
  have long: "5000 < length (replicate 5001 CHR ''a'')" by simp
  show ?thesis
    using long long_text_is_cut_to_5000 [OF long, of "\<lambda>url args. Inr ''b''" "''en''" "''fr''"]
    by simp
qed

text \<open>
  C9, as stated, fails: \<^verbatim>\<open>access_token\<close> takes no lock. When both callers pass the test
  before either has sent its request, two authentication requests are sent and the callers
  return two different tokens; a caller that tests between the other's assignments of the
  token and of the expiry finds a token without expiry, and the comparison raises.
\<close>

theorem two_callers_two_requests:
  "run racing_schedule (\<lparr>cache = init_cache, sent = []\<rparr>, At_check, At_check)
     = (\<lparr>cache = \<lparr>access_token_attr = PStr ''t2'', token_expiry_attr = Some 540000020\<rparr>,
         sent = [OAUTH_URL, OAUTH_URL]\<rparr>,
        Finished (Inr (PStr ''t1'')), Finished (Inr (PStr ''t2''))) \<and>
   run torn_schedule (\<lparr>cache = init_cache, sent = []\<rparr>, At_check, At_check)
     = (\<lparr>cache = \<lparr>access_token_attr = PStr ''t1'', token_expiry_attr = None\<rparr>,
         sent = [OAUTH_URL]\<rparr>,
        At_write_expiry,
        Finished (Inl Compare_type_error)) \<and>
   failure_class Compare_type_error = ''TypeError''"
  by (simp add: run_def racing_schedule_def torn_schedule_def system_step_def init_cache_def
      read_reply_def is_token_expired_def TOKEN_EXPIRY_def)

text \<open>
  C9, amended. When no token is held and the second caller starts after the first has
  returned, before the expiry of the token installed, one authentication request is sent
  and both callers return the token of its response.
\<close>

theorem sequential_callers_share_one_request:
  assumes unset: "access_token_attr self = PNone"
    and ok: "data ''error'' = None"
    and tok: "data ''access_token'' = Some token"
    and held: "token \<noteq> PNone"
    and fresh: "now' < T + TOKEN_EXPIRY"
  shows "run (alone First now T (Inr data) @ alone Second now' T' reply')
           (\<lparr>cache = self, sent = []\<rparr>, At_check, At_check)
         = (\<lparr>cache = self\<lparr>access_token_attr := token,
                           token_expiry_attr := Some (T + TOKEN_EXPIRY)\<rparr>,
             sent = [OAUTH_URL]\<rparr>,
            Finished (Inr token), Finished (Inr token))"
proof -
  let ?self' = "self\<lparr>access_token_attr := token, token_expiry_attr := Some (T + TOKEN_EXPIRY)\<rparr>"
  have first: "access_token self now T (Inr data) = (Inr token, ?self', [OAUTH_URL])"
    using unset ok tok by (simp add: access_token_def refresh_token_def read_reply_def)
  have second: "access_token ?self' now' T' reply' = (Inr token, ?self', [])"
    using held fresh by (simp add: access_token_def is_token_expired_def)
  show ?thesis
    by (simp add: run_append run_first_alone run_second_alone first second)
qed

theorem sequential_callers_share_one_request_witness:
  "run (alone First 0 10 (Inr [''access_token'' \<mapsto> PStr ''t1''])
        @ alone Second 20 30 (Inr [''access_token'' \<mapsto> PStr ''t2'']))
     (\<lparr>cache = init_cache, sent = []\<rparr>, At_check, At_check)
   = (\<lparr>cache = \<lparr>access_token_attr = PStr ''t1'', token_expiry_attr = Some 540000010\<rparr>,
       sent = [OAUTH_URL]\<rparr>,
      Finished (Inr (PStr ''t1'')), Finished (Inr (PStr ''t1'')))"
proof -
  let ?data = "[''access_token'' \<mapsto> PStr ''t1'']"
  have unset: "access_token_attr init_cache = PNone" by (simp add: init_cache_def)
  have ok: "?data ''error'' = None" by simp
  have tok: "?data ''access_token'' = Some (PStr ''t1'')" by simp
  have held: "PStr ''t1'' \<noteq> PNone" by simp
  have fresh: "(20::int) < 10 + TOKEN_EXPIRY" by (simp add: TOKEN_EXPIRY_def)
  show ?thesis
    using sequential_callers_share_one_request
      [where self = init_cache and data = ?data and token = "PStr ''t1''" and now = 0
         and T = 10 and now' = 20 and T' = 30
         and reply' = "Inr [''access_token'' \<mapsto> PStr ''t2'']",
       OF unset ok tok held fresh]
    by (simp add: init_cache_def TOKEN_EXPIRY_def)
qed

text \<open>
  C10. Whenever the request is answered, \<open>download_translations\<close> returns exactly one
  candidate: the response, the quality 100, the service name, and the input text as it was
  given, also when it is longer than the 5000 characters that were sent.
\<close>

theorem one_candidate_with_full_source:
  assumes "json_req TRANSLATE_URL (download_args source language text) = Inr response"
  shows "fst (mt_download_translations json_req source language text)
           = Inr [(response, 100, mt_name, text)]"
  using assms by (simp add: mt_download_translations_def Let_def)

theorem one_candidate_with_full_source_witness:
  "fst (mt_download_translations (\<lambda>url args. Inr (rev (arg_text args))) ''en'' ''fr'' (replicate 5001 CHR ''a''))
     = Inr [(replicate 5000 CHR ''a'', 100, ''Microsoft Translator'', replicate 5001 CHR ''a'')]"
proof -
  let ?req = "\<lambda>(url::string) (args::char translate_args). (Inr (rev (arg_text args)) :: pyexc + string)"
  have answered: "?req TRANSLATE_URL (download_args ''en'' ''fr'' (replicate 5001 CHR ''a''))
                    = Inr (replicate 5000 CHR ''a'')"
    by (simp add: download_args_def)
  show ?thesis
    using one_candidate_with_full_source [of ?req "''en''" "''fr''" "replicate 5001 CHR ''a''", OF answered]
    by (simp add: mt_name_def)
qed



text \<open>
  C2, as stated, fails: with the supported languages \<open>en\<close> and \<open>fr\<close> and the pair
  \<open>en-US\<close>, \<open>fr\<close>, the widening step keeps \<open>en-US\<close> and turns \<open>fr\<close> into \<open>fr-fr\<close>;
  the second check fails and \<open>translate\<close> returns the empty list without a download,
  though the service would have answered.
\<close>

theorem en_US_fr_counterexample:
  "widen [''en_US'', ''fr_FR''] ''en-US'' = ''en-US'' \<and>
   \<not> supported_in {''en'', ''fr''}
        (widen [''en_US'', ''fr_FR''] ''en-US'') (widen [''en_US'', ''fr_FR''] ''fr'') \<and>
   translate example_service [''en_US'', ''fr_FR''] ''fr'' ''hello'' ''en-US''
     = (Inr [], [Convert_language ''fr'', Convert_language ''en-US'',
                 Is_supported ''en-US'' ''fr'', Is_supported ''en-US'' ''fr-fr''])"
  by (simp add: translate_def negotiate_def Let_def example_service_def supported_in_def widen_find
      split_first_def lower_def lower_char_def replace_underscore_def)

text \<open>
  C2, amended. With the supported languages \<open>en\<close> and \<open>fr\<close> and the pair \<open>en-US\<close>,
  \<open>fr\<close>, whatever the table: the widening step never strips a region, what it makes of
  \<open>en-US\<close> is not a supported language, and \<open>translate\<close> returns the empty list without
  calling \<open>download_translations\<close>.
\<close>

theorem en_US_stays_unsupported:
  assumes sup: "is_supported self = supported_in {''en'', ''fr''}"
    and conv: "convert_language self ''en-US'' = ''en-US''"
  shows "widen DEFAULT_LANGS ''en-US'' \<notin> {''en'', ''fr''} \<and>
         fst (translate self DEFAULT_LANGS ''fr'' text ''en-US'') = Inr [] \<and>
         filter is_download (snd (translate self DEFAULT_LANGS ''fr'' text ''en-US'')) = []"
proof -
  have "CHR ''-'' \<in> set (widen DEFAULT_LANGS ''en-US'')"
    by (rule widen_keeps_hyphen) simp
  then have out: "widen DEFAULT_LANGS ''en-US'' \<notin> {''en'', ''fr''}"
    by auto
  have "fst (negotiate self DEFAULT_LANGS ''fr'' ''en-US'') = None"
    using out by (simp add: negotiate_def Let_def sup conv supported_in_def)
  then have "translate self DEFAULT_LANGS ''fr'' text ''en-US''
               = (if text = [] then (Inr [], [])
                  else (Inr [], snd (negotiate self DEFAULT_LANGS ''fr'' ''en-US'')))"
    by (cases "negotiate self DEFAULT_LANGS ''fr'' ''en-US''") (simp add: translate_def)
  with out show ?thesis
    by (simp add: negotiate_calls_no_download)
qed

theorem en_US_stays_unsupported_witness:
  "fst (translate example_service [''en_US'', ''fr_FR''] ''fr'' ''hello'' ''en-US'') = Inr [] \<and>
   filter is_download (snd (translate example_service [''en_US'', ''fr_FR''] ''fr'' ''hello'' ''en-US'')) = []"
proof -
  have sup: "is_supported example_service = supported_in {''en'', ''fr''}"
    by (simp add: example_service_def)
  have conv: "convert_language example_service ''en-US'' = ''en-US''"
    by (simp add: example_service_def)
  show ?thesis
    using en_US_stays_unsupported [OF sup conv, of "[''en_US'', ''fr_FR'']" "''hello''"]
    by simp
qed

text \<open>
  C3. When the text is not empty, the support check lets a pair through and
  \<open>download_translations\<close> raises an exception for it, \<open>translate\<close> raises
  MachineTranslationError with the message made of the exception's class name, a colon and
  its \<open>str\<close>, and reports the exception once, with the format string of the source.
\<close>

theorem download_failure_is_wrapped:
  assumes "text \<noteq> []"
    and "fst (negotiate self DEFAULT_LANGS language source_code) = Some (source', language')"
    and "download_translations self source' language' text = Inl exc"
  shows "fst (translate self DEFAULT_LANGS language text source_code)
           = Inl (MachineTranslationError (exc_class exc @ '': '' @ exc_str exc)) \<and>
         filter is_report (snd (translate self DEFAULT_LANGS language text source_code))
           = [Report_error exc ''Failed to fetch translations from %s'']"
proof -
  obtain calls where "negotiate self DEFAULT_LANGS language source_code = (Some (source', language'), calls)"
    using assms(2) by (cases "negotiate self DEFAULT_LANGS language source_code") simp
  moreover from this have "filter is_report calls = []"
    using negotiate_calls_no_report [of self DEFAULT_LANGS language source_code] by simp
  ultimately show ?thesis
    using assms(1,3) by (simp add: translate_def fetch_def)
qed

theorem download_failure_is_wrapped_witness:
  "translate failing_service [''en_US'', ''fr_FR''] ''fr'' ''hello'' ''en''
     = (Inl (PyExc ''MachineTranslationError'' ''URLError: timed out''),
        [Convert_language ''fr'', Convert_language ''en'', Is_supported ''en'' ''fr'',
         Is_supported ''en-us'' ''fr-fr'', Download_translations ''en-us'' ''fr-fr'' ''hello'',
         Report_error (PyExc ''URLError'' ''timed out'') ''Failed to fetch translations from %s''])"
proof -
  have nonempty: "''hello'' \<noteq> []" by simp
  have passed: "fst (negotiate failing_service [''en_US'', ''fr_FR''] ''fr'' ''en'') = Some (''en-us'', ''fr-fr'')"
    by (simp add: negotiate_def Let_def failing_service_def supported_in_def widen_find
        split_first_def lower_def lower_char_def replace_underscore_def)
  have raised: "download_translations failing_service ''en-us'' ''fr-fr'' ''hello'' = Inl (PyExc ''URLError'' ''timed out'')"
    by (simp add: failing_service_def)
  have calls: "snd (translate failing_service [''en_US'', ''fr_FR''] ''fr'' ''hello'' ''en'')
     = [Convert_language ''fr'', Convert_language ''en'', Is_supported ''en'' ''fr'',
         Is_supported ''en-us'' ''fr-fr'', Download_translations ''en-us'' ''fr-fr'' ''hello'',
         Report_error (PyExc ''URLError'' ''timed out'') ''Failed to fetch translations from %s'']"
    by (simp add: translate_def fetch_def negotiate_def Let_def failing_service_def supported_in_def widen_find
        split_first_def lower_def lower_char_def replace_underscore_def)
  show ?thesis
    using download_failure_is_wrapped [OF nonempty passed raised] calls
    by (simp add: MachineTranslationError_def prod_eq_iff)
qed

text \<open>
  C7. For the empty text \<open>translate\<close> returns the empty list and calls none of its
  collaborators: no conversion, no support check, no download, no report, whatever the
  service, the table and the codes.
\<close>

theorem empty_text_returns_at_once:
  "translate self DEFAULT_LANGS language [] source_code = (Inr [], [])"
  by (simp add: translate_def)

end
